theory Spec2Isabelle
  imports Main "HOL-Library.AList"
begin

section \<open>Python values, exceptions and the outside world\<close>

text \<open>
  The agent of \<^verbatim>\<open>main.py\<close> and the tools of \<^verbatim>\<open>tools.py\<close> handle JSON-like Python
  values: what the model backend sends as a tool-call request is a dictionary that nobody
  has validated. Such values are modelled by \<open>pyval\<close>; a dictionary with string keys is an
  association list read with \<open>map_of\<close> (the first binding of a key is the one a lookup
  sees). Python's \<^verbatim>\<open>str\<close> is modelled by \<open>string\<close>, the UTF-8 bytes of the text, so the
  accented letters of the Spanish messages are two bytes each. Floats are not modelled.
\<close>

datatype pyval =
    PNone
  | PBool bool
  | PInt int
  | PStr string
  | PList "pyval list"
  | PDict "(string \<times> pyval) list"

text \<open>
  Exceptions carry their class and the text of \<^verbatim>\<open>str(e)\<close>. \<open>KeyboardInterrupt\<close>,
  \<open>SystemExit\<close> and \<open>GeneratorExit\<close> derive from \<^verbatim>\<open>BaseException\<close> and not from
  \<^verbatim>\<open>Exception\<close>, and so does a class that executed code derives from
  \<^verbatim>\<open>BaseException\<close> itself (\<open>OtherBaseException\<close>, with the name of the class);
  \<open>OtherException\<close> is any other class that derives from \<^verbatim>\<open>Exception\<close>. An
  \<^verbatim>\<open>except Exception\<close> clause catches exactly the classes that derive from
  \<^verbatim>\<open>Exception\<close>. A class derived from one of the named classes counts as that class.
\<close>

datatype exc_class =
    KeyError
  | TypeError
  | AttributeError
  | EOFError
  | OtherException string
  | KeyboardInterrupt
  | SystemExit
  | GeneratorExit
  | OtherBaseException string

datatype pyexc = PyExc exc_class string

fun exc_cls :: "pyexc \<Rightarrow> exc_class" where
  "exc_cls (PyExc c m) = c"

fun exc_msg :: "pyexc \<Rightarrow> string" where
  "exc_msg (PyExc c m) = m"

fun is_Exception :: "pyexc \<Rightarrow> bool" where
  "is_Exception (PyExc KeyboardInterrupt m) = False"
| "is_Exception (PyExc SystemExit m) = False"
| "is_Exception (PyExc GeneratorExit m) = False"
| "is_Exception (PyExc (OtherBaseException c) m) = False"
| "is_Exception (PyExc c m) = True"

text \<open>
  The namespace of \<^verbatim>\<open>code_exec\<close> binds names to arbitrary Python objects: the two
  modules put there at initialisation, and whatever executed code defines.
\<close>

datatype pyobj = Module string | Obj pyval

type_synonym env = "(string \<times> pyobj) list"

text \<open>
  What the program calls but does not define is a parameter of the model, collected in
  the record \<open>ext\<close>: Python's \<^verbatim>\<open>str()\<close> on values that are not strings, the text of
  \<^verbatim>\<open>traceback.format_exc()\<close>, the two search providers, what the operating system
  answers when a file is opened for appending, the Python interpreter behind \<^verbatim>\<open>exec\<close>
  (given code and a namespace it returns the namespace as the code left it, what the code
  wrote to standard output, and the exception it raised, if any), and the model backend
  \<^verbatim>\<open>ollama.chat\<close> as a function of the message history it is sent. Within one session
  every request carries a strictly longer history than the one before, so a function of the
  history can answer the successive requests of a session in any way at all.
\<close>

record ext =
  str_of :: "pyval \<Rightarrow> string"
  format_exc :: "pyexc \<Rightarrow> string"
  news_run :: "pyval \<Rightarrow> pyexc + pyval"
  wiki_run :: "pyval \<Rightarrow> pyexc + pyval"
  open_error :: "pyval \<Rightarrow> pyexc option"
  py_exec :: "pyval \<Rightarrow> env \<Rightarrow> env \<times> string \<times> pyexc option"
  chat :: "pyval list \<Rightarrow> pyexc + pyval"

text \<open>
  The mutable state of the process: the files of the working directory, the global
  \<^verbatim>\<open>_EXEC_GLOBALS\<close> of \<^verbatim>\<open>tools.py\<close>, what was printed (one entry for each call of
  \<^verbatim>\<open>print\<close> or prompt of \<^verbatim>\<open>input\<close>), the lines still to be read from standard input,
  and the requests sent to the model backend so far.
\<close>

record world =
  files :: "string \<rightharpoonup> string"
  exec_globals :: env
  stdout :: "string list"
  stdin :: "string list"
  requests :: "pyval list list"

definition print :: "string \<Rightarrow> world \<Rightarrow> world" where
  "print line w = w\<lparr>stdout := stdout w @ [line]\<rparr>"

subsection \<open>Characters that a string literal cannot hold\<close>

definition sq :: char where "sq = CHR 0x27"
definition dq :: char where "dq = CHR 0x22"
definition bslash :: char where "bslash = CHR 0x5C"
definition nl :: char where "nl = CHR 0x0A"

definition a_acute :: string where "a_acute = [CHR 0xC3, CHR 0xA1]"
definition i_acute :: string where "i_acute = [CHR 0xC3, CHR 0xAD]"
definition o_acute :: string where "o_acute = [CHR 0xC3, CHR 0xB3]"
definition u_acute :: string where "u_acute = [CHR 0xC3, CHR 0xBA]"
definition n_tilde :: string where "n_tilde = [CHR 0xC3, CHR 0xB1]"
definition middle_dot :: string where "middle_dot = [CHR 0xC2, CHR 0xB7]"

subsection \<open>Operations of Python on values\<close>

fun type_name :: "pyval \<Rightarrow> string" where
  "type_name PNone = ''NoneType''"
| "type_name (PBool b) = ''bool''"
| "type_name (PInt i) = ''int''"
| "type_name (PStr s) = ''str''"
| "type_name (PList l) = ''list''"
| "type_name (PDict d) = ''dict''"

text \<open>\<^verbatim>\<open>str(v)\<close>, and \<^verbatim>\<open>{v}\<close> in an f-string: a string is its own text.\<close>

fun py_str :: "ext \<Rightarrow> pyval \<Rightarrow> string" where
  "py_str x (PStr s) = s"
| "py_str x v = str_of x v"

text \<open>
  \<^verbatim>\<open>v[k]\<close> with a string key: only a dictionary can be read that way. The texts of
  the errors are those of CPython 3.11 and later.
\<close>

fun subscript :: "pyval \<Rightarrow> string \<Rightarrow> pyexc + pyval" where
  "subscript (PDict d) k =
     (case map_of d k of
        None \<Rightarrow> Inl (PyExc KeyError (sq # k @ [sq]))
      | Some v \<Rightarrow> Inr v)"
| "subscript (PStr s) k =
     Inl (PyExc TypeError (''string indices must be integers, not '' @ [sq] @ ''str'' @ [sq]))"
| "subscript (PList l) k = Inl (PyExc TypeError ''list indices must be integers or slices, not str'')"
| "subscript v k =
     Inl (PyExc TypeError (sq # type_name v @ [sq] @ '' object is not subscriptable''))"

text \<open>\<^verbatim>\<open>v.get(k, default)\<close>: a method of dictionaries only.\<close>

fun py_get :: "pyval \<Rightarrow> string \<Rightarrow> pyval \<Rightarrow> pyexc + pyval" where
  "py_get (PDict d) k dflt = Inr (case map_of d k of None \<Rightarrow> dflt | Some v \<Rightarrow> v)"
| "py_get v k dflt =
     Inl (PyExc AttributeError
       (sq # type_name v @ [sq] @ '' object has no attribute '' @ [sq] @ ''get'' @ [sq]))"

fun truthy :: "pyval \<Rightarrow> bool" where
  "truthy PNone = False"
| "truthy (PBool b) = b"
| "truthy (PInt i) = (i \<noteq> 0)"
| "truthy (PStr s) = (s \<noteq> [])"
| "truthy (PList l) = (l \<noteq> [])"
| "truthy (PDict d) = (d \<noteq> [])"

text \<open>What a \<^verbatim>\<open>for\<close> loop over a value visits.\<close>

fun py_iter :: "pyval \<Rightarrow> pyexc + pyval list" where
  "py_iter (PList l) = Inr l"
| "py_iter (PStr s) = Inr (map (\<lambda>c. PStr [c]) s)"
| "py_iter (PDict d) = Inr (map PStr (remdups (map fst d)))"
| "py_iter v = Inl (PyExc TypeError (sq # type_name v @ [sq] @ '' object is not iterable''))"

section \<open>The tools (tools.py)\<close>

subsection \<open>The persistent namespace of code execution\<close>

text \<open>
  \<^verbatim>\<open>_ensure_exec_env\<close>: an empty (falsy) \<^verbatim>\<open>_EXEC_GLOBALS\<close> is replaced by a fresh
  dictionary holding the modules \<^verbatim>\<open>pd\<close> and \<^verbatim>\<open>plt\<close>; a namespace that holds anything
  is left alone.
\<close>

definition ensure_exec_env :: "world \<Rightarrow> world" where
  "ensure_exec_env w =
     (if exec_globals w = []
      then w\<lparr>exec_globals := [(''pd'', Module ''pandas''), (''plt'', Module ''matplotlib.pyplot'')]\<rparr>
      else w)"

subsection \<open>Escaping backslashes in string literals\<close>

text \<open>
  \<^verbatim>\<open>_sanitize_path_literals\<close> substitutes every match of the regular expression
  \<^verbatim>\<open>(?P<prefix>r|R)?(?P<q>['"])(?P<body>.*?\\.*?)(?P=q)\<close>, where a dot matches every
  character. Both stars are lazy, so after the opening quote the body runs to the first
  backslash and from there to the first occurrence of the same quote; if no such quote
  follows the first backslash, none follows a later one either, and there is no match at
  this position. \<open>split_first c s\<close> cuts \<open>s\<close> at the first \<open>c\<close>.
\<close>

fun split_first :: "char \<Rightarrow> string \<Rightarrow> (string \<times> string) option" where
  "split_first c [] = None"
| "split_first c (x # xs) =
     (if x = c then Some ([], xs)
      else (case split_first c xs of None \<Rightarrow> None | Some (a, b) \<Rightarrow> Some (x # a, b)))"

definition match_body :: "char \<Rightarrow> string \<Rightarrow> (string \<times> string) option" where
  "match_body q s =
     (case split_first bslash s of
        None \<Rightarrow> None
      | Some (a, b) \<Rightarrow>
          (case split_first q b of
             None \<Rightarrow> None
           | Some (c, d) \<Rightarrow> Some (a @ bslash # c, d)))"

text \<open>\<^verbatim>\<open>body.replace('\\', '\\\\')\<close>\<close>

definition double_backslashes :: "string \<Rightarrow> string" where
  "double_backslashes body = concat (map (\<lambda>c. if c = bslash then [bslash, bslash] else [c]) body)"

definition is_quote :: "char \<Rightarrow> bool" where
  "is_quote c = (c = sq \<or> c = dq)"

text \<open>
  A match that starts at a raw prefix is put back as it is (\<^verbatim>\<open>m.group(0)\<close>); any other
  match comes back between its quotes with the backslashes of its body doubled. The
  search goes on behind the match, and one character further where nothing matched.
\<close>

function sanitize_path_literals :: "string \<Rightarrow> string" where
  "sanitize_path_literals [] = []"
| "sanitize_path_literals (x # xs) =
     (case (if x = CHR ''r'' \<or> x = CHR ''R''
            then (case xs of
                    [] \<Rightarrow> None
                  | q # ys \<Rightarrow> if is_quote q
                             then map_option (\<lambda>(body, rest). (q # body @ [q], rest)) (match_body q ys)
                             else None)
            else if is_quote x
            then map_option (\<lambda>(body, rest). (double_backslashes body @ [x], rest)) (match_body x xs)
            else None) of
        None \<Rightarrow> x # sanitize_path_literals xs
      | Some (out, rest) \<Rightarrow> x # out @ sanitize_path_literals rest)"
  by pat_completeness auto

termination
proof (relation "measure length")
  have cut: "length b < length s" if "split_first c s = Some (a, b)" for c s a b
    using that by (induction s arbitrary: a) (auto split: if_splits option.splits)
  have shorter: "length rest < length s" if "match_body q s = Some (body, rest)" for q s body rest
    using that by (auto simp: match_body_def split: option.splits dest!: cut)
  show "wf (measure length)"
    by simp
  show "(xs, x # xs) \<in> measure length" for x xs
    by simp
  show "(rest, x # xs) \<in> measure length"
    if "(if x = CHR ''r'' \<or> x = CHR ''R''
         then (case xs of
                 [] \<Rightarrow> None
               | q # ys \<Rightarrow> if is_quote q
                          then map_option (\<lambda>(body, rest). (q # body @ [q], rest)) (match_body q ys)
                          else None)
         else if is_quote x
         then map_option (\<lambda>(body, rest). (double_backslashes body @ [x], rest)) (match_body x xs)
         else None) = Some p" and "(out, rest) = p" for x xs p out rest
    using that by (auto split: if_splits list.splits dest!: shorter)
qed

subsection \<open>The five tool functions\<close>

text \<open>
  \<^verbatim>\<open>search_web\<close>, \<^verbatim>\<open>search_yf\<close> and \<^verbatim>\<open>wikipedia_lookup\<close> hand their argument to a
  provider and return what it returns; a provider that fails raises.
\<close>

definition search_web :: "ext \<Rightarrow> pyval \<Rightarrow> pyexc + pyval" where
  "search_web x query = news_run x query"

definition search_yf :: "ext \<Rightarrow> pyval \<Rightarrow> pyexc + pyval" where
  "search_yf x query = news_run x (PStr (''site:finance.yahoo.com '' @ py_str x query))"

definition wikipedia_lookup :: "ext \<Rightarrow> pyval \<Rightarrow> pyexc + pyval" where
  "wikipedia_lookup x query = wiki_run x query"

text \<open>
  \<^verbatim>\<open>save_text_to_file\<close> opens the file in mode \<^verbatim>\<open>"a"\<close>, which creates a missing file
  and keeps the content of an existing one, then writes at the end. Opening can fail
  (\<open>open_error\<close>); \<^verbatim>\<open>None\<close>, a list or a dictionary is no file name at all; an integer
  names a descriptor and not a file of the directory, and what is written there is not
  modelled. Writing anything but a string raises after the file has been opened.
\<close>

definition write_error :: "pyval \<Rightarrow> pyexc" where
  "write_error data = PyExc TypeError (''write() argument must be str, not '' @ type_name data)"

definition save_text_to_file :: "ext \<Rightarrow> pyval \<Rightarrow> pyval \<Rightarrow> world \<Rightarrow> (pyexc + pyval) \<times> world" where
  "save_text_to_file x data filename w =
     (case filename of
        PStr fn \<Rightarrow>
          (case open_error x filename of
             Some e \<Rightarrow> (Inl e, w)
           | None \<Rightarrow>
               (let old = (case files w fn of None \<Rightarrow> [] | Some c \<Rightarrow> c)
                in case data of
                     PStr d \<Rightarrow>
                       (Inr (PStr (''Data successfully saved to '' @ fn)),
                        w\<lparr>files := (files w)(fn \<mapsto> old @ d)\<rparr>)
                   | _ \<Rightarrow> (Inl (write_error data), w\<lparr>files := (files w)(fn \<mapsto> old)\<rparr>)))
      | PInt fd \<Rightarrow>
          (case open_error x filename of
             Some e \<Rightarrow> (Inl e, w)
           | None \<Rightarrow>
               (case data of
                  PStr d \<Rightarrow> (Inr (PStr (''Data successfully saved to '' @ py_str x filename)), w)
                | _ \<Rightarrow> (Inl (write_error data), w)))
      | PBool fd \<Rightarrow>
          (case open_error x filename of
             Some e \<Rightarrow> (Inl e, w)
           | None \<Rightarrow>
               (case data of
                  PStr d \<Rightarrow> (Inr (PStr (''Data successfully saved to '' @ py_str x filename)), w)
                | _ \<Rightarrow> (Inl (write_error data), w)))
      | _ \<Rightarrow>
          (Inl (PyExc TypeError
                  (''expected str, bytes or os.PathLike object, not '' @ type_name filename)),
           w))"

text \<open>
  \<^verbatim>\<open>code_exec\<close>. The sanitiser raises on an argument that is not a string, and the
  \<^verbatim>\<open>except Exception\<close> around it then keeps the argument as it came (\<open>safe_code\<close>). The executed code
  works on the dictionary \<^verbatim>\<open>_EXEC_GLOBALS\<close> itself, so whatever it changed there stays
  changed, also when it raises. An exception of class \<^verbatim>\<open>Exception\<close> is written to the
  captured output, followed by the traceback; any other exception leaves the function.
  Executed code is taken to act on the namespace and on its standard output only.
\<close>

definition safe_code :: "pyval \<Rightarrow> pyval" where
  "safe_code code = (case code of PStr c \<Rightarrow> PStr (sanitize_path_literals c) | _ \<Rightarrow> code)"

definition code_exec :: "ext \<Rightarrow> pyval \<Rightarrow> world \<Rightarrow> (pyexc + pyval) \<times> world" where
  "code_exec x code w =
     (let w1 = ensure_exec_env w
      in case py_exec x (safe_code code) (exec_globals w1) of
           (g, out, raised) \<Rightarrow>
             (case raised of
                None \<Rightarrow> (Inr (PStr out), w1\<lparr>exec_globals := g\<rparr>)
              | Some e \<Rightarrow>
                  if is_Exception e
                  then (Inr (PStr (out @ ''Error: '' @ exc_msg e @ [nl] @ format_exc x e @ [nl])),
                        w1\<lparr>exec_globals := g\<rparr>)
                  else (Inl e, w1\<lparr>exec_globals := g\<rparr>)))"

subsection \<open>Tool descriptors and the registry\<close>

definition tool_spec :: "string \<Rightarrow> string \<Rightarrow> string list \<Rightarrow> (string \<times> string) list \<Rightarrow> (string \<times> pyval) list" where
  "tool_spec name description required properties =
     [(''type'', PStr ''function''),
      (''function'', PDict
         [(''name'', PStr name),
          (''description'', PStr description),
          (''parameters'', PDict
             [(''type'', PStr ''object''),
              (''required'', PList (map PStr required)),
              (''properties'', PDict
                 (map (\<lambda>(p, d). (p, PDict [(''type'', PStr ''string''), (''description'', PStr d)]))
                    properties))])])]"

definition TOOL_SPECS :: "(string \<times> pyval) list list" where
  "TOOL_SPECS =
     [tool_spec ''search_web''
        (''Buscar en la web (noticias) para obtener informaci'' @ o_acute @ ''n actual.'')
        [''query'']
        [(''query'', ''t'' @ o_acute @ ''pico o consulta a buscar en la web'')],
      tool_spec ''search_yf''
        (''Buscar noticias financieras (s'' @ o_acute @ ''lo Yahoo Finance).'')
        [''query'']
        [(''query'', ''t'' @ o_acute @ ''pico financiero a buscar'')],
      tool_spec ''wikipedia_lookup''
        (''Consulta Wikipedia para obtener res'' @ u_acute @ ''menes de art'' @ i_acute @ ''culos.'')
        [''query'']
        [(''query'', ''tema a buscar en Wikipedia'')],
      tool_spec ''save_text_to_file''
        ''Guarda texto en un archivo en el servidor.''
        [''data'']
        [(''data'', ''texto a guardar''), (''filename'', ''nombre de archivo (opcional)'')],
      tool_spec ''code_exec''
        (''Ejecuta c'' @ o_acute @ ''digo Python y devuelve la salida de consola.'')
        [''code'']
        [(''code'', ''c'' @ o_acute @ ''digo Python a ejecutar'')]]"

text \<open>The values of \<^verbatim>\<open>TOOL_FUNCS\<close> are the five functions above.\<close>

datatype tool =
    Fn_search_web
  | Fn_search_yf
  | Fn_wikipedia_lookup
  | Fn_save_text_to_file
  | Fn_code_exec

definition TOOL_FUNCS :: "(string \<times> tool) list" where
  "TOOL_FUNCS =
     [(''search_web'', Fn_search_web),
      (''search_yf'', Fn_search_yf),
      (''wikipedia_lookup'', Fn_wikipedia_lookup),
      (''save_text_to_file'', Fn_save_text_to_file),
      (''code_exec'', Fn_code_exec)]"

text \<open>The name of each function and its parameters, each with its default if it has one.\<close>

fun fn_name :: "tool \<Rightarrow> string" where
  "fn_name Fn_search_web = ''search_web''"
| "fn_name Fn_search_yf = ''search_yf''"
| "fn_name Fn_wikipedia_lookup = ''wikipedia_lookup''"
| "fn_name Fn_save_text_to_file = ''save_text_to_file''"
| "fn_name Fn_code_exec = ''code_exec''"

fun params :: "tool \<Rightarrow> (string \<times> pyval option) list" where
  "params Fn_search_web = [(''query'', None)]"
| "params Fn_search_yf = [(''query'', None)]"
| "params Fn_wikipedia_lookup = [(''query'', None)]"
| "params Fn_save_text_to_file = [(''data'', None), (''filename'', Some (PStr ''research_output.txt''))]"
| "params Fn_code_exec = [(''code'', None)]"

subsection \<open>Calling a tool with keyword arguments\<close>

text \<open>
  \<^verbatim>\<open>func(**args)\<close>: Python itself refuses the call, with a \<^verbatim>\<open>TypeError\<close> and before
  the body of the function runs, when \<^verbatim>\<open>args\<close> is no mapping, when it holds a keyword
  that is no parameter of the function, and when a parameter without default gets no
  value. \<open>bind_args\<close> returns the values of the parameters in the order of the signature.
  The text of the first of these errors names the function with its module.
\<close>

definition bind_args :: "tool \<Rightarrow> pyval \<Rightarrow> pyexc + pyval list" where
  "bind_args f args =
     (case args of
        PDict kw \<Rightarrow>
          (case filter (\<lambda>k. k \<notin> set (map fst (params f))) (map fst kw) of
             k # _ \<Rightarrow>
               Inl (PyExc TypeError
                 (fn_name f @ ''() got an unexpected keyword argument '' @ [sq] @ k @ [sq]))
           | [] \<Rightarrow>
               (case filter (\<lambda>(p, dflt). dflt = None \<and> map_of kw p = None) (params f) of
                  (p, _) # _ \<Rightarrow>
                    Inl (PyExc TypeError
                      (fn_name f @ ''() missing 1 required positional argument: '' @ [sq] @ p @ [sq]))
                | [] \<Rightarrow>
                    Inr (map (\<lambda>(p, dflt).
                           case map_of kw p of
                             Some v \<Rightarrow> v
                           | None \<Rightarrow> (case dflt of Some d \<Rightarrow> d | None \<Rightarrow> PNone))
                         (params f))))
      | _ \<Rightarrow>
          Inl (PyExc TypeError
            (''tools.'' @ fn_name f @ ''() argument after ** must be a mapping, not ''
               @ type_name args)))"

text \<open>The body of each function, run on the values of its parameters.\<close>

fun run_tool :: "ext \<Rightarrow> tool \<Rightarrow> pyval list \<Rightarrow> world \<Rightarrow> (pyexc + pyval) \<times> world" where
  "run_tool x Fn_search_web [query] w = (search_web x query, w)"
| "run_tool x Fn_search_yf [query] w = (search_yf x query, w)"
| "run_tool x Fn_wikipedia_lookup [query] w = (wikipedia_lookup x query, w)"
| "run_tool x Fn_save_text_to_file [data, filename] w = save_text_to_file x data filename w"
| "run_tool x Fn_code_exec [code] w = code_exec x code w"
| "run_tool x f vs w = (Inl (PyExc TypeError (fn_name f @ ''() called with the wrong number of values'')), w)"

definition call_tool :: "ext \<Rightarrow> tool \<Rightarrow> pyval \<Rightarrow> world \<Rightarrow> (pyexc + pyval) \<times> world" where
  "call_tool x f args w =
     (case bind_args f args of
        Inl e \<Rightarrow> (Inl e, w)
      | Inr vs \<Rightarrow> run_tool x f vs w)"

section \<open>The agent (main.py)\<close>

subsection \<open>The system prompt\<close>

definition build_tools_text :: "ext \<Rightarrow> (string \<times> pyval) list list \<Rightarrow> string" where
  "build_tools_text x specs =
     (let lines =
        concat (map (\<lambda>t.
          case map_of t ''function'' of
            Some (PDict f) \<Rightarrow>
              [''- '' @ py_str x (case map_of f ''name'' of None \<Rightarrow> PNone | Some n \<Rightarrow> n)
                @ '': '' @ py_str x (case map_of f ''description'' of None \<Rightarrow> PStr [] | Some d \<Rightarrow> d)]
          | _ \<Rightarrow> []) specs)
      in case lines of
           [] \<Rightarrow> []
         | l # ls \<Rightarrow> l @ concat (map (\<lambda>m. nl # m) ls))"

definition TOOLS_TEXT :: "ext \<Rightarrow> string" where
  "TOOLS_TEXT x = build_tools_text x TOOL_SPECS"

definition SYSTEM_PROMPT :: "ext \<Rightarrow> string" where
  "SYSTEM_PROMPT x =
     ''Eres un asistente experto con acceso a herramientas para buscar informaci'' @ o_acute
       @ ''n actual y ejecutar c'' @ o_acute @ ''digo Python.'' @ [nl]
     @ ''Decide con criterio cu'' @ a_acute @ ''ndo usar herramientas. Si no es necesario, ''
       @ ''responde directamente y en espa'' @ n_tilde @ ''ol.'' @ [nl, nl]
     @ ''Available tools:'' @ [nl]
     @ TOOLS_TEXT x @ [nl]"

subsection \<open>Calling the model and executing a tool call\<close>

text \<open>\<^verbatim>\<open>call_agent\<close> prints a failure of the backend and raises it again.\<close>

definition call_agent :: "ext \<Rightarrow> pyval list \<Rightarrow> world \<Rightarrow> (pyexc + pyval) \<times> world" where
  "call_agent x msgs w =
     (let w1 = w\<lparr>requests := requests w @ [msgs]\<rparr>
      in case chat x msgs of
           Inr response \<Rightarrow> (Inr response, w1)
         | Inl e \<Rightarrow>
             if is_Exception e
             then (Inl e, print (''[ERROR] Fallo en la llamada a ollama.chat: '' @ exc_msg e) w1)
             else (Inl e, w1))"

text \<open>
  The first \<^verbatim>\<open>try\<close> of \<^verbatim>\<open>execute_tool_call\<close>: two chains of subscripts, guarded by
  \<^verbatim>\<open>except KeyError\<close> and by nothing else.
\<close>

definition name_and_arguments :: "pyval \<Rightarrow> pyexc + pyval \<times> pyval" where
  "name_and_arguments call =
     (case subscript call ''function'' of
        Inl e \<Rightarrow> Inl e
      | Inr f \<Rightarrow>
          (case subscript f ''name'' of
             Inl e \<Rightarrow> Inl e
           | Inr name \<Rightarrow>
               (case subscript f ''arguments'' of
                  Inl e \<Rightarrow> Inl e
                | Inr args \<Rightarrow> Inr (name, args))))"

definition malformed_call :: string where
  "malformed_call =
     ''[ERROR] tool_call mal formada: falta '' @ [sq] @ ''name'' @ [sq] @ '' o ''
       @ [sq] @ ''arguments'' @ [sq] @ ''.''"

definition no_implementation :: "string \<Rightarrow> string" where
  "no_implementation name =
     ''[ERROR] No hay implementaci'' @ o_acute @ ''n para la herramienta '' @ [sq] @ name @ [sq] @ ''.''"

definition tool_error :: "ext \<Rightarrow> string \<Rightarrow> pyexc \<Rightarrow> string" where
  "tool_error x name e =
     ''[ERROR ejecutando '' @ name @ ''] '' @ exc_msg e @ [nl] @ format_exc x e"

text \<open>The line that \<^verbatim>\<open>execute_tool_call\<close> prints before it calls a tool.\<close>

definition announce :: "ext \<Rightarrow> pyval \<Rightarrow> pyval \<Rightarrow> world \<Rightarrow> world" where
  "announce x name args w =
     print ('' ['' @ middle_dot @ ''] Ejecutando tool: '' @ py_str x name @ '' con args='' @ py_str x args) w"

text \<open>
  \<^verbatim>\<open>TOOL_FUNCS.get(name)\<close> hashes the name: a list or a dictionary cannot be hashed, and
  any other value that is not one of the five keys finds nothing.
\<close>

fun registry_get :: "pyval \<Rightarrow> pyexc + tool option" where
  "registry_get (PStr n) = Inr (map_of TOOL_FUNCS n)"
| "registry_get (PList l) = Inl (PyExc TypeError (''unhashable type: '' @ [sq] @ ''list'' @ [sq]))"
| "registry_get (PDict d) = Inl (PyExc TypeError (''unhashable type: '' @ [sq] @ ''dict'' @ [sq]))"
| "registry_get v = Inr None"

definition execute_tool_call :: "ext \<Rightarrow> pyval \<Rightarrow> world \<Rightarrow> (pyexc + string) \<times> world" where
  "execute_tool_call x call w =
     (case name_and_arguments call of
        Inl e \<Rightarrow> if exc_cls e = KeyError then (Inr malformed_call, w) else (Inl e, w)
      | Inr (name, args) \<Rightarrow>
          (case registry_get name of
             Inl e \<Rightarrow> (Inl e, w)
           | Inr None \<Rightarrow> (Inr (no_implementation (py_str x name)), w)
           | Inr (Some func) \<Rightarrow>
               (let w1 = announce x name args w
                in case call_tool x func args w1 of
                     (Inr result, w2) \<Rightarrow> (Inr (py_str x result), w2)
                   | (Inl e, w2) \<Rightarrow>
                       if is_Exception e
                       then (Inr (tool_error x (py_str x name) e), w2)
                       else (Inl e, w2))))"

subsection \<open>The conversation loop\<close>

text \<open>
  The history is the list \<^verbatim>\<open>messages\<close> of \<^verbatim>\<open>main\<close>; its elements are the dictionaries
  the code builds.
\<close>

definition system_message :: "ext \<Rightarrow> pyval" where
  "system_message x = PDict [(''role'', PStr ''system''), (''content'', PStr (SYSTEM_PROMPT x))]"

definition user_message :: "string \<Rightarrow> pyval" where
  "user_message user_input = PDict [(''role'', PStr ''user''), (''content'', PStr user_input)]"

definition tool_message :: "string \<Rightarrow> pyval" where
  "tool_message tool_output =
     PDict [(''role'', PStr ''tool''), (''content'', PStr tool_output),
            (''tool_call_id'', PStr ''dummy_id'')]"

definition assistant_message :: "pyval \<Rightarrow> pyval" where
  "assistant_message assistant_response =
     PDict [(''role'', PStr ''assistant''), (''content'', assistant_response)]"

text \<open>
  \<^verbatim>\<open>main\<close> from the creation of the history on is a machine with two working states,
  one for each \<^verbatim>\<open>while True\<close>: \<open>AwaitingUser\<close> is the head of the outer loop, about to
  read a line, and \<open>ModelTurn\<close> the head of the inner loop, about to call the model. The
  session is over in \<open>Ended\<close> (a \<^verbatim>\<open>break\<close> of the outer loop) and in \<open>Escaped e\<close> (the
  exception \<open>e\<close> left \<^verbatim>\<open>main\<close>, caught by neither \<^verbatim>\<open>except\<close> clause). The choice of the
  model before the loop is not part of the machine, and neither is an interrupt from the
  keyboard, which can arrive at any moment.
\<close>

datatype phase = AwaitingUser | ModelTurn | Ended | Escaped pyexc

record config =
  phase :: phase
  messages :: "pyval list"
  tools_executed :: bool
  wld :: world

definition start :: "ext \<Rightarrow> world \<Rightarrow> config" where
  "start x w = \<lparr>phase = AwaitingUser, messages = [system_message x], tools_executed = False, wld = w\<rparr>"

text \<open>The two \<^verbatim>\<open>except\<close> clauses of the outer loop; what goes to standard error is left out.\<close>

definition handle_exception :: "pyexc \<Rightarrow> config \<Rightarrow> config" where
  "handle_exception e c =
     (if exc_cls e = KeyboardInterrupt
      then c\<lparr>phase := Ended, wld := print (nl # ''[Interrumpido por el usuario]'') (wld c)\<rparr>
      else if is_Exception e
      then c\<lparr>phase := Ended, wld := print (''[ERROR] '' @ exc_msg e) (wld c)\<rparr>
      else c\<lparr>phase := Escaped e\<rparr>)"

text \<open>
  \<^verbatim>\<open>str.strip()\<close> removes the white space of Unicode from both ends of a string. In
  UTF-8 these characters are the single bytes 9 to 13, 28 to 31 and 32 (\<open>is_space\<close>),
  the two-byte sequences of U+0085 and U+00A0 (\<open>space2\<close>), and the three-byte sequences
  of U+1680, U+2000 to U+200A, U+2028, U+2029, U+202F, U+205F and U+3000 (\<open>space3\<close>).
  \<open>lstrip\<close> removes them from the front; \<open>rstrip_rev\<close> does the same on the reversed
  string, where the bytes of a character come last byte first.
\<close>

definition is_space :: "char \<Rightarrow> bool" where
  "is_space c = (let n = (of_char c :: nat) in (9 \<le> n \<and> n \<le> 13) \<or> (28 \<le> n \<and> n \<le> 32))"

definition space2 :: "char \<Rightarrow> char \<Rightarrow> bool" where
  "space2 a b = (a = CHR 0xC2 \<and> (b = CHR 0x85 \<or> b = CHR 0xA0))"

definition space3 :: "char \<Rightarrow> char \<Rightarrow> char \<Rightarrow> bool" where
  "space3 a b c =
     ((a = CHR 0xE1 \<and> b = CHR 0x9A \<and> c = CHR 0x80)
      \<or> (a = CHR 0xE2 \<and> b = CHR 0x80
           \<and> ((128 \<le> (of_char c :: nat) \<and> (of_char c :: nat) \<le> 138)
                \<or> c = CHR 0xA8 \<or> c = CHR 0xA9 \<or> c = CHR 0xAF))
      \<or> (a = CHR 0xE2 \<and> b = CHR 0x81 \<and> c = CHR 0x9F)
      \<or> (a = CHR 0xE3 \<and> b = CHR 0x80 \<and> c = CHR 0x80))"

fun lstrip :: "string \<Rightarrow> string" where
  "lstrip (a # b # c # s) =
     (if is_space a then lstrip (b # c # s)
      else if space2 a b then lstrip (c # s)
      else if space3 a b c then lstrip s
      else a # b # c # s)"
| "lstrip [a, b] = (if is_space a then lstrip [b] else if space2 a b then [] else [a, b])"
| "lstrip [a] = (if is_space a then [] else [a])"
| "lstrip [] = []"

fun rstrip_rev :: "string \<Rightarrow> string" where
  "rstrip_rev (c # b # a # s) =
     (if is_space c then rstrip_rev (b # a # s)
      else if space2 b c then rstrip_rev (a # s)
      else if space3 a b c then rstrip_rev s
      else c # b # a # s)"
| "rstrip_rev [b, a] = (if is_space b then rstrip_rev [a] else if space2 a b then [] else [b, a])"
| "rstrip_rev [a] = (if is_space a then [] else [a])"
| "rstrip_rev [] = []"

definition strip :: "string \<Rightarrow> string" where
  "strip s = rev (rstrip_rev (rev (lstrip s)))"

text \<open>
  \<^verbatim>\<open>str.lower()\<close> on the letters of ASCII. The loop only asks whether the lowered input
  is \<^verbatim>\<open>quit\<close> or \<^verbatim>\<open>exit\<close>, and no character outside ASCII is lowered by Python to
  one of the letters of these two words, so the answer is the one Python gives.
\<close>

definition lower :: "string \<Rightarrow> string" where
  "lower s = map (\<lambda>c. let n = (of_char c :: nat) in if 65 \<le> n \<and> n \<le> 90 then char_of (n + 32) else c) s"

text \<open>
  The head of the outer loop: \<^verbatim>\<open>input\<close> shows its prompt and reads a line, and raises
  \<^verbatim>\<open>EOFError\<close> when there is none.
\<close>

definition read_query :: "config \<Rightarrow> config" where
  "read_query c =
     (let w1 = print ('' > Inserte su consulta aqu'' @ i_acute @ '': '') (wld c)
      in case stdin w1 of
           [] \<Rightarrow> handle_exception (PyExc EOFError ''EOF when reading a line'') (c\<lparr>wld := w1\<rparr>)
         | line # rest \<Rightarrow>
             (let user_input = strip line;
                  w2 = w1\<lparr>stdin := rest\<rparr>
              in if user_input = [] \<or> lower user_input \<in> {''quit'', ''exit''}
                 then c\<lparr>phase := Ended, wld := w2\<rparr>
                 else c\<lparr>phase := ModelTurn,
                        messages := messages c @ [user_message user_input],
                        tools_executed := False,
                        wld := w2\<rparr>))"

text \<open>
  The \<^verbatim>\<open>for\<close> loop over the tool calls of one response: each result is appended to the
  history before the next call is executed, and an exception that leaves
  \<^verbatim>\<open>execute_tool_call\<close> ends the loop with the history as it is then.
\<close>

fun dispatch_calls :: "ext \<Rightarrow> pyval list \<Rightarrow> pyval list \<Rightarrow> world \<Rightarrow> pyexc option \<times> pyval list \<times> world" where
  "dispatch_calls x [] msgs w = (None, msgs, w)"
| "dispatch_calls x (call # calls) msgs w =
     (case execute_tool_call x call w of
        (Inl e, w1) \<Rightarrow> (Some e, msgs, w1)
      | (Inr tool_output, w1) \<Rightarrow> dispatch_calls x calls (msgs @ [tool_message tool_output]) w1)"

text \<open>\<^verbatim>\<open>response.get("message", {}).get(key, default)\<close>\<close>

definition message_field :: "pyval \<Rightarrow> string \<Rightarrow> pyval \<Rightarrow> pyexc + pyval" where
  "message_field response key dflt =
     (case py_get response ''message'' (PDict []) of
        Inl e \<Rightarrow> Inl e
      | Inr m \<Rightarrow> py_get m key dflt)"

text \<open>One pass through the body of the inner loop.\<close>

definition model_turn :: "ext \<Rightarrow> config \<Rightarrow> config" where
  "model_turn x c =
     (case call_agent x (messages c) (wld c) of
        (Inl e, w1) \<Rightarrow> handle_exception e (c\<lparr>wld := w1\<rparr>)
      | (Inr response, w1) \<Rightarrow>
          (case message_field response ''tool_calls'' (PList []) of
             Inl e \<Rightarrow> handle_exception e (c\<lparr>wld := w1\<rparr>)
           | Inr tool_calls \<Rightarrow>
               if truthy tool_calls
               then (case py_iter tool_calls of
                       Inl e \<Rightarrow> handle_exception e (c\<lparr>tools_executed := True, wld := w1\<rparr>)
                     | Inr calls \<Rightarrow>
                         (case dispatch_calls x calls (messages c) w1 of
                            (Some e, msgs, w2) \<Rightarrow>
                              handle_exception e (c\<lparr>messages := msgs, tools_executed := True, wld := w2\<rparr>)
                          | (None, msgs, w2) \<Rightarrow>
                              c\<lparr>messages := msgs, tools_executed := True, wld := w2\<rparr>))
               else (case message_field response ''content'' (PStr []) of
                       Inl e \<Rightarrow> handle_exception e (c\<lparr>wld := w1\<rparr>)
                     | Inr assistant_response \<Rightarrow>
                         if truthy assistant_response
                         then c\<lparr>phase := AwaitingUser,
                                messages := messages c @ [assistant_message assistant_response],
                                wld := print (nl # py_str x assistant_response @ [nl]) w1\<rparr>
                         else c\<lparr>phase := AwaitingUser,
                                wld := print ''(sin respuesta del modelo)'' w1\<rparr>)))"

definition step :: "ext \<Rightarrow> config \<Rightarrow> config" where
  "step x c =
     (case phase c of
        AwaitingUser \<Rightarrow> read_query c
      | ModelTurn \<Rightarrow> model_turn x c
      | Ended \<Rightarrow> c
      | Escaped e \<Rightarrow> c)"

text \<open>The session after \<open>n\<close> steps.\<close>

definition run :: "ext \<Rightarrow> nat \<Rightarrow> config \<Rightarrow> config" where
  "run x n c = (step x ^^ n) c"

subsection \<open>Concrete surroundings for examples\<close>

text \<open>
  A world with no files, an empty namespace and nothing printed, and surroundings in
  which the providers answer with a fixed text, every file can be opened, and the
  interpreter \<open>exec0\<close> knows two programs, an assignment and a division by zero;
  \<open>exec_exit\<close> knows a call of \<^verbatim>\<open>sys.exit\<close> as well. As Python does,
  both put \<^verbatim>\<open>__builtins__\<close> into a namespace that lacks it.
  \<open>repr0\<close> is Python's \<^verbatim>\<open>repr\<close> on values whose strings hold no quote, no backslash and
  no control character.
\<close>

fun show_nat :: "nat \<Rightarrow> string" where
  "show_nat n = (if n < 10 then [char_of (48 + n)] else show_nat (n div 10) @ [char_of (48 + n mod 10)])"

definition show_int :: "int \<Rightarrow> string" where
  "show_int i = (if i < 0 then CHR ''-'' # show_nat (nat (- i)) else show_nat (nat i))"

fun join :: "string \<Rightarrow> string list \<Rightarrow> string" where
  "join sep [] = []"
| "join sep [s] = s"
| "join sep (s # t # ss) = s @ sep @ join sep (t # ss)"

fun repr0 :: "pyval \<Rightarrow> string" where
  "repr0 PNone = ''None''"
| "repr0 (PBool b) = (if b then ''True'' else ''False'')"
| "repr0 (PInt i) = show_int i"
| "repr0 (PStr s) = sq # s @ [sq]"
| "repr0 (PList l) = ''['' @ join '', '' (map repr0 l) @ '']''"
| "repr0 (PDict d) = ''{'' @ join '', '' (map (\<lambda>kv. sq # fst kv @ [sq] @ '': '' @ repr0 (snd kv)) d) @ ''}''"

definition world0 :: world where
  "world0 = \<lparr>files = Map.empty, exec_globals = [], stdout = [], stdin = [], requests = []\<rparr>"

definition with_builtins :: "env \<Rightarrow> env" where
  "with_builtins g =
     (if map_of g ''__builtins__'' = None then g @ [(''__builtins__'', Module ''builtins'')] else g)"

definition exec0 :: "pyval \<Rightarrow> env \<Rightarrow> env \<times> string \<times> pyexc option" where
  "exec0 code g =
     (if code = PStr ''x = 1''
      then (AList.update ''x'' (Obj (PInt 1)) (with_builtins g), [], None)
      else if code = PStr ''1/0''
      then (with_builtins g, [], Some (PyExc (OtherException ''ZeroDivisionError'') ''division by zero''))
      else (with_builtins g, [], None))"

definition exec_exit :: "pyval \<Rightarrow> env \<Rightarrow> env \<times> string \<times> pyexc option" where
  "exec_exit code g =
     (if code = PStr ''import sys; sys.exit()''
      then (AList.update ''sys'' (Module ''sys'') (with_builtins g), [], Some (PyExc SystemExit []))
      else exec0 code g)"

definition ext0 :: "(pyval list \<Rightarrow> pyexc + pyval) \<Rightarrow> ext" where
  "ext0 backend =
     \<lparr>str_of = repr0,
      format_exc = (\<lambda>e. ''Traceback (most recent call last):''),
      news_run = (\<lambda>q. Inr (PStr ''news'')),
      wiki_run = (\<lambda>q. Inr (PStr ''summary'')),
      open_error = (\<lambda>f. None),
      py_exec = exec0,
      chat = backend\<rparr>"







definition no_tools :: "pyval list \<Rightarrow> pyexc + pyval" where
  "no_tools msgs = Inr (PDict [(''message'', PDict [(''role'', PStr ''assistant''), (''content'', PStr [])])])"

subsection \<open>Notions used in the statements\<close>

text \<open>What can be a key of a dictionary.\<close>

fun hashable :: "pyval \<Rightarrow> bool" where
  "hashable (PList l) = False"
| "hashable (PDict d) = False"
| "hashable v = True"

text \<open>
  A request that \<^verbatim>\<open>execute_tool_call\<close> can read without a type error: a dictionary
  whose \<^verbatim>\<open>function\<close> entry, if there is one, is a dictionary, whose \<^verbatim>\<open>name\<close> entry, if
  there is one, can be hashed.
\<close>

definition guarded_call :: "pyval \<Rightarrow> bool" where
  "guarded_call call =
     (case call of
        PDict d \<Rightarrow>
          (case map_of d ''function'' of
             None \<Rightarrow> True
           | Some (PDict f) \<Rightarrow> (case map_of f ''name'' of None \<Rightarrow> True | Some name \<Rightarrow> hashable name)
           | Some _ \<Rightarrow> False)
      | _ \<Rightarrow> False)"


text \<open>
  The exception with which the call of the tool ends for a request, when the request
  gets as far as the call and the call raises.
\<close>

definition tool_raise :: "ext \<Rightarrow> pyval \<Rightarrow> world \<Rightarrow> pyexc option" where
  "tool_raise x call w =
     (case name_and_arguments call of
        Inl e \<Rightarrow> None
      | Inr (name, args) \<Rightarrow>
          (case registry_get name of
             Inr (Some func) \<Rightarrow>
               (case call_tool x func args (announce x name args w) of
                  (Inl e, w2) \<Rightarrow> Some e
                | (Inr result, w2) \<Rightarrow> None)
           | _ \<Rightarrow> None))"

text \<open>
  The world after a sequence of calls of \<^verbatim>\<open>code_exec\<close>, one for each code of the list.
  A call in world \<open>w\<close> hands the namespace \<open>exec_globals (ensure_exec_env w)\<close> to the
  interpreter.
\<close>

definition after_calls :: "ext \<Rightarrow> pyval list \<Rightarrow> world \<Rightarrow> world" where
  "after_calls x codes w = foldl (\<lambda>w' code. snd (code_exec x code w')) w codes"

text \<open>
  The arguments that the descriptor of a tool in \<^verbatim>\<open>TOOL_SPECS\<close> marks as required,
  and the names of the tools described there.
\<close>

definition spec_name :: "(string \<times> pyval) list \<Rightarrow> pyval" where
  "spec_name t =
     (case map_of t ''function'' of
        Some (PDict f) \<Rightarrow> (case map_of f ''name'' of Some n \<Rightarrow> n | None \<Rightarrow> PNone)
      | _ \<Rightarrow> PNone)"

definition spec_required :: "(string \<times> pyval) list \<Rightarrow> pyval list" where
  "spec_required t =
     (case map_of t ''function'' of
        Some (PDict f) \<Rightarrow>
          (case map_of f ''parameters'' of
             Some (PDict ps) \<Rightarrow> (case map_of ps ''required'' of Some (PList r) \<Rightarrow> r | _ \<Rightarrow> [])
           | _ \<Rightarrow> [])
      | _ \<Rightarrow> [])"

definition required_arguments :: "string \<Rightarrow> pyval list" where
  "required_arguments name = concat (map spec_required (filter (\<lambda>t. spec_name t = PStr name) TOOL_SPECS))"

definition has_argument :: "pyval \<Rightarrow> pyval \<Rightarrow> bool" where
  "has_argument args r =
     (case (args, r) of
        (PDict kw, PStr k) \<Rightarrow> map_of kw k \<noteq> None
      | _ \<Rightarrow> False)"

section \<open>Executing one tool call\<close>

lemma name_and_arguments_dict:
  "name_and_arguments (PDict d) =
     (case map_of d ''function'' of
        None \<Rightarrow> Inl (PyExc KeyError (sq # ''function'' @ [sq]))
      | Some f \<Rightarrow>
          (case subscript f ''name'' of
             Inl e \<Rightarrow> Inl e
           | Inr name \<Rightarrow> (case subscript f ''arguments'' of Inl e \<Rightarrow> Inl e | Inr args \<Rightarrow> Inr (name, args))))"
  by (simp add: name_and_arguments_def split: option.splits)

lemma name_and_arguments_wellformed:
  assumes "map_of d ''function'' = Some (PDict f)" "map_of f ''name'' = Some name"
    "map_of f ''arguments'' = Some args"
  shows "name_and_arguments (PDict d) = Inr (name, args)"
  using assms by (simp add: name_and_arguments_dict)

lemma execute_tool_call_found:
  assumes "name_and_arguments call = Inr (PStr n, args)" "map_of TOOL_FUNCS n = Some func"
  shows "execute_tool_call x call w =
     (case call_tool x func args (announce x (PStr n) args w) of
        (Inr result, w2) \<Rightarrow> (Inr (py_str x result), w2)
      | (Inl e, w2) \<Rightarrow> if is_Exception e then (Inr (tool_error x n e), w2) else (Inl e, w2))"
  using assms by (simp add: execute_tool_call_def split: prod.splits sum.splits)

text \<open>
  C2, as amended. A tool-call request that lacks the \<^verbatim>\<open>function\<close> entry, or whose \<^verbatim>\<open>function\<close>
  dictionary lacks \<^verbatim>\<open>name\<close> or \<^verbatim>\<open>arguments\<close>, makes \<^verbatim>\<open>execute_tool_call\<close> return the
  fixed malformed-call text: no exception leaves the function, and the world is as it
  was, so no tool has run and nothing was printed. The claim as stated fails for a
  request whose \<^verbatim>\<open>function\<close> entry is present and is no dictionary: for \<^verbatim>\<open>None\<close> and
  for a string, subscripting it raises a \<^verbatim>\<open>TypeError\<close>, which the handler for
  \<^verbatim>\<open>KeyError\<close> does not catch and which leaves the function.
\<close>

theorem missing_field_yields_malformed_call:
  assumes "map_of d ''function'' = None
     \<or> (\<exists>f. map_of d ''function'' = Some (PDict f)
             \<and> (map_of f ''name'' = None \<or> map_of f ''arguments'' = None))"
  shows "execute_tool_call x (PDict d) w = (Inr malformed_call, w)"
  using assms
  by (auto simp: execute_tool_call_def name_and_arguments_dict split: option.splits)

theorem missing_field_yields_malformed_call_witness:
  "execute_tool_call (ext0 no_tools)
     (PDict [(''function'', PDict [(''name'', PStr ''code_exec'')])]) world0
   = (Inr (''[ERROR] tool_call mal formada: falta '' @ [sq] @ ''name'' @ [sq] @ '' o ''
             @ [sq] @ ''arguments'' @ [sq] @ ''.''), world0)"
  using missing_field_yields_malformed_call
    [of "[(''function'', PDict [(''name'', PStr ''code_exec'')])]" "ext0 no_tools" world0]
  by (simp add: malformed_call_def)

theorem function_not_dict_raises:
  "execute_tool_call (ext0 no_tools) (PDict [(''function'', PNone)]) world0
     = (Inl (PyExc TypeError (sq # ''NoneType'' @ [sq] @ '' object is not subscriptable'')), world0)
   \<and> execute_tool_call (ext0 no_tools) (PDict [(''function'', PStr ''code_exec'')]) world0
     = (Inl (PyExc TypeError (''string indices must be integers, not '' @ [sq] @ ''str'' @ [sq])), world0)"
  by (simp add: execute_tool_call_def name_and_arguments_dict)

lemma TOOL_FUNCS_cases:
  assumes "map_of TOOL_FUNCS n = Some func"
  shows "(n = ''search_web'' \<and> func = Fn_search_web)
       \<or> (n = ''search_yf'' \<and> func = Fn_search_yf)
       \<or> (n = ''wikipedia_lookup'' \<and> func = Fn_wikipedia_lookup)
       \<or> (n = ''save_text_to_file'' \<and> func = Fn_save_text_to_file)
       \<or> (n = ''code_exec'' \<and> func = Fn_code_exec)"
  using assms by (simp add: TOOL_FUNCS_def split: if_splits)

lemma TOOL_FUNCS_names:
  "fst ` set TOOL_FUNCS = {''search_web'', ''search_yf'', ''wikipedia_lookup'', ''save_text_to_file'', ''code_exec''}"
  by (simp add: TOOL_FUNCS_def)

lemma TOOL_SPECS_names:
  "spec_name ` set TOOL_SPECS = PStr ` fst ` set TOOL_FUNCS"
  by (simp add: TOOL_SPECS_def TOOL_FUNCS_def tool_spec_def spec_name_def)

lemma map_of_TOOL_FUNCS_None: "(map_of TOOL_FUNCS n = None) = (n \<notin> fst ` set TOOL_FUNCS)"
  by (simp add: map_of_eq_None_iff)

lemma fn_name_registered: "map_of TOOL_FUNCS n = Some func \<Longrightarrow> fn_name func = n"
  by (auto dest!: TOOL_FUNCS_cases)

lemma execute_tool_call_unknown:
  assumes "name_and_arguments call = Inr (PStr n, args)" "n \<notin> fst ` set TOOL_FUNCS"
  shows "execute_tool_call x call w = (Inr (no_implementation n), w)"
proof -
  from assms(2) have "map_of TOOL_FUNCS n = None"
    by (simp add: map_of_TOOL_FUNCS_None)
  with assms(1) show ?thesis
    by (simp add: execute_tool_call_def)
qed

text \<open>
  C3. Every name in the registry, and every name that a descriptor of \<^verbatim>\<open>TOOL_SPECS\<close>
  advertises, is looked up to a callable, the function of that name. A request that
  names a tool outside the registry makes \<^verbatim>\<open>execute_tool_call\<close> return the
  no-implementation text for that name; nothing is raised and the world is as it was.
\<close>

theorem registry_lookup:
  "(n \<in> fst ` set TOOL_FUNCS \<or> PStr n \<in> spec_name ` set TOOL_SPECS
      \<longrightarrow> (\<exists>func. registry_get (PStr n) = Inr (Some func) \<and> fn_name func = n))
   \<and> (map_of d ''function'' = Some (PDict f) \<and> map_of f ''name'' = Some (PStr m)
        \<and> map_of f ''arguments'' = Some args \<and> m \<notin> fst ` set TOOL_FUNCS
      \<longrightarrow> execute_tool_call x (PDict d) w = (Inr (no_implementation m), w))"
proof (intro conjI impI)
  assume "n \<in> fst ` set TOOL_FUNCS \<or> PStr n \<in> spec_name ` set TOOL_SPECS"
  then have "n \<in> fst ` set TOOL_FUNCS"
    by (auto simp: TOOL_SPECS_names)
  then obtain func where "map_of TOOL_FUNCS n = Some func"
    using map_of_TOOL_FUNCS_None [of n] by (cases "map_of TOOL_FUNCS n") auto
  then show "\<exists>func. registry_get (PStr n) = Inr (Some func) \<and> fn_name func = n"
    by (auto simp: fn_name_registered)
next
  assume "map_of d ''function'' = Some (PDict f) \<and> map_of f ''name'' = Some (PStr m)
        \<and> map_of f ''arguments'' = Some args \<and> m \<notin> fst ` set TOOL_FUNCS"
  then show "execute_tool_call x (PDict d) w = (Inr (no_implementation m), w)"
    by (auto intro!: execute_tool_call_unknown name_and_arguments_wellformed)
qed

theorem registry_lookup_witness:
  "registry_get (PStr ''code_exec'') = Inr (Some Fn_code_exec)
   \<and> fn_name Fn_code_exec = ''code_exec''
   \<and> execute_tool_call (ext0 no_tools)
        (PDict [(''function'', PDict [(''name'', PStr ''weather''), (''arguments'', PDict [])])]) world0
      = (Inr (no_implementation ''weather''), world0)"
  using registry_lookup [of "''code_exec''"
      "[(''function'', PDict [(''name'', PStr ''weather''), (''arguments'', PDict [])])]"
      "[(''name'', PStr ''weather''), (''arguments'', PDict [])]" "''weather''" "PDict []"
      "ext0 no_tools" world0]
  by (simp add: TOOL_FUNCS_def)

lemma bind_args_error: "bind_args func args = Inl e \<Longrightarrow> is_Exception e"
  by (auto simp: bind_args_def split: pyval.splits list.splits)

text \<open>
  A call that Python accepts binds one value for each parameter, so the last equation
  of \<open>run_tool\<close> is never the one that \<open>call_tool\<close> uses.
\<close>

lemma bind_args_length: "bind_args func args = Inr vs \<Longrightarrow> length vs = length (params func)"
  by (auto simp: bind_args_def split: pyval.splits list.splits)

lemma call_tool_runs_body:
  assumes "bind_args func args = Inr vs"
  shows "call_tool x func args w =
     (case func of
        Fn_search_web \<Rightarrow> (search_web x (vs ! 0), w)
      | Fn_search_yf \<Rightarrow> (search_yf x (vs ! 0), w)
      | Fn_wikipedia_lookup \<Rightarrow> (wikipedia_lookup x (vs ! 0), w)
      | Fn_save_text_to_file \<Rightarrow> save_text_to_file x (vs ! 0) (vs ! 1) w
      | Fn_code_exec \<Rightarrow> code_exec x (vs ! 0) w)"
proof -
  from assms have "length vs = length (params func)"
    by (rule bind_args_length)
  then show ?thesis
    using assms
    by (cases func; cases vs; cases "tl vs") (auto simp: call_tool_def)
qed


lemma registry_get_hashable: "hashable name \<Longrightarrow> \<exists>r. registry_get name = Inr r"
  by (cases name) auto

lemma execute_tool_call_not_dict:
  assumes "map_of d ''function'' = Some v" "\<forall>f. v \<noteq> PDict f"
  shows "\<exists>m. execute_tool_call x (PDict d) w = (Inl (PyExc TypeError m), w)"
  using assms
  by (cases v) (auto simp: execute_tool_call_def name_and_arguments_dict)

lemma execute_tool_call_escapes:
  assumes "name_and_arguments call = Inr (PStr n, args)" "map_of TOOL_FUNCS n = Some func"
    "call_tool x func args (announce x (PStr n) args w) = (Inl e, w2)" "\<not> is_Exception e"
  shows "execute_tool_call x call w = (Inl e, w2)"
  using assms by (simp add: execute_tool_call_found)

lemma execute_tool_call_raised:
  assumes "name_and_arguments call = Inr (PStr n, args)" "map_of TOOL_FUNCS n = Some func"
    "call_tool x func args (announce x (PStr n) args w) = (Inl e, w2)" "is_Exception e"
  shows "execute_tool_call x call w = (Inr (tool_error x n e), w2)"
  using assms by (simp add: execute_tool_call_found)


lemma code_exec_escapes:
  assumes "py_exec x (PStr (sanitize_path_literals c)) (exec_globals (ensure_exec_env w)) = (g, out, Some e)"
    "\<not> is_Exception e"
  shows "code_exec x (PStr c) w = (Inl e, (ensure_exec_env w)\<lparr>exec_globals := g\<rparr>)"
  using assms by (simp add: code_exec_def safe_code_def)

lemma call_tool_code_exec: "call_tool x Fn_code_exec (PDict [(''code'', c)]) w = code_exec x c w"
  by (simp add: call_tool_def bind_args_def)

lemma sanitize_exit: "sanitize_path_literals ''import sys; sys.exit()'' = ''import sys; sys.exit()''"
  by (simp add: is_quote_def sq_def dq_def)

lemma exec_exit_exit:
  "exec_exit (PStr ''import sys; sys.exit()'') g
     = (AList.update ''sys'' (Module ''sys'') (with_builtins g), [], Some (PyExc SystemExit []))"
  by (simp add: exec_exit_def)

lemma required_are_params:
  assumes "map_of TOOL_FUNCS n = Some func" "r \<in> set (required_arguments n)"
  shows "\<exists>p. r = PStr p \<and> (p, None) \<in> set (params func)"
  using assms
  by (auto dest!: TOOL_FUNCS_cases
      simp: required_arguments_def TOOL_SPECS_def tool_spec_def spec_name_def spec_required_def)

lemma bind_args_missing:
  assumes "(p, None) \<in> set (params func)" "\<not> has_argument args (PStr p)"
  shows "\<exists>m. bind_args func args = Inl (PyExc TypeError m)"
proof (cases args)
  case (PDict kw)
  with assms have "map_of kw p = None"
    by (simp add: has_argument_def)
  with assms(1) have "filter (\<lambda>(p, dflt). dflt = None \<and> map_of kw p = None) (params func) \<noteq> []"
    by (auto simp: filter_empty_conv)
  then show ?thesis
    using PDict by (auto simp: bind_args_def split: list.splits)
qed (simp_all add: bind_args_def)

text \<open>
  C4, as amended. Before it dispatches a request, the loop checks only that the name is
  registered: a name outside the registry is answered with the no-implementation text.
  Nothing compares the arguments with the descriptor of the tool. For a registered
  name the call is announced and made; an argument that the descriptor marks as required
  and that the request does not carry then makes the call fail when Python binds the
  keyword arguments, with a \<^verbatim>\<open>TypeError\<close>: the request is answered with the text of the
  tool-execution error, and apart from the line that announces the call the world is as
  it was, so the body of the tool has not run. The claim as stated fails because the
  request without its required argument is dispatched: the call is announced on the
  standard output and the function of the tool is called.
\<close>

theorem required_arguments_checked:
  assumes "map_of d ''function'' = Some (PDict f)" "map_of f ''name'' = Some (PStr n)"
    "map_of f ''arguments'' = Some args"
  shows "(n \<notin> fst ` set TOOL_FUNCS \<longrightarrow> execute_tool_call x (PDict d) w = (Inr (no_implementation n), w))
     \<and> (\<forall>func r. map_of TOOL_FUNCS n = Some func \<and> r \<in> set (required_arguments n) \<and> \<not> has_argument args r
          \<longrightarrow> (\<exists>m. bind_args func args = Inl (PyExc TypeError m)
                 \<and> execute_tool_call x (PDict d) w
                     = (Inr (tool_error x n (PyExc TypeError m)), announce x (PStr n) args w)))"
proof -
  have na: "name_and_arguments (PDict d) = Inr (PStr n, args)"
    using assms by (rule name_and_arguments_wellformed)
  show ?thesis
  proof (intro conjI impI allI)
    assume "n \<notin> fst ` set TOOL_FUNCS"
    with na show "execute_tool_call x (PDict d) w = (Inr (no_implementation n), w)"
      by (rule execute_tool_call_unknown)
  next
    fix func r
    assume h: "map_of TOOL_FUNCS n = Some func \<and> r \<in> set (required_arguments n) \<and> \<not> has_argument args r"
    then obtain p where "r = PStr p" "(p, None) \<in> set (params func)"
      using required_are_params by blast
    with h obtain m where m: "bind_args func args = Inl (PyExc TypeError m)"
      using bind_args_missing by blast
    with h na have "execute_tool_call x (PDict d) w
        = (Inr (tool_error x n (PyExc TypeError m)), announce x (PStr n) args w)"
      by (simp add: execute_tool_call_found call_tool_def)
    with m show "\<exists>m. bind_args func args = Inl (PyExc TypeError m)
                 \<and> execute_tool_call x (PDict d) w
                     = (Inr (tool_error x n (PyExc TypeError m)), announce x (PStr n) args w)"
      by blast
  qed
qed

theorem required_arguments_checked_witness:
  "map_of TOOL_FUNCS ''save_text_to_file'' = Some Fn_save_text_to_file
   \<and> PStr ''data'' \<in> set (required_arguments ''save_text_to_file'')
   \<and> \<not> has_argument (PDict [(''filename'', PStr ''a.txt'')]) (PStr ''data'')
   \<and> (\<exists>m. bind_args Fn_save_text_to_file (PDict [(''filename'', PStr ''a.txt'')]) = Inl (PyExc TypeError m)
         \<and> execute_tool_call (ext0 no_tools)
              (PDict [(''function'', PDict [(''name'', PStr ''save_text_to_file''),
                                            (''arguments'', PDict [(''filename'', PStr ''a.txt'')])])])
              world0
            = (Inr (tool_error (ext0 no_tools) ''save_text_to_file'' (PyExc TypeError m)),
               announce (ext0 no_tools) (PStr ''save_text_to_file'')
                 (PDict [(''filename'', PStr ''a.txt'')]) world0))"
proof -
  let ?args = "PDict [(''filename'', PStr ''a.txt'')]"
  let ?f = "[(''name'', PStr ''save_text_to_file''), (''arguments'', ?args)]"
  have h: "map_of TOOL_FUNCS ''save_text_to_file'' = Some Fn_save_text_to_file
      \<and> PStr ''data'' \<in> set (required_arguments ''save_text_to_file'')
      \<and> \<not> has_argument ?args (PStr ''data'')"
    by (simp add: TOOL_FUNCS_def required_arguments_def TOOL_SPECS_def tool_spec_def
        spec_name_def spec_required_def has_argument_def)
  from required_arguments_checked [of "[(''function'', PDict ?f)]" ?f "''save_text_to_file''" ?args
      "ext0 no_tools" world0]
  have "\<forall>func r. map_of TOOL_FUNCS ''save_text_to_file'' = Some func
          \<and> r \<in> set (required_arguments ''save_text_to_file'') \<and> \<not> has_argument ?args r
        \<longrightarrow> (\<exists>m. bind_args func ?args = Inl (PyExc TypeError m)
              \<and> execute_tool_call (ext0 no_tools) (PDict [(''function'', PDict ?f)]) world0
                  = (Inr (tool_error (ext0 no_tools) ''save_text_to_file'' (PyExc TypeError m)),
                     announce (ext0 no_tools) (PStr ''save_text_to_file'') ?args world0))"
    by simp
  with h show ?thesis
    by blast
qed

lemma call_tool_save_no_data:
  "call_tool x Fn_save_text_to_file (PDict [(''filename'', f)]) w
     = (Inl (PyExc TypeError
          (''save_text_to_file() missing 1 required positional argument: '' @ [sq] @ ''data'' @ [sq])), w)"
  by (simp add: call_tool_def bind_args_def)

theorem missing_argument_reaches_the_call:
  "PStr ''data'' \<in> set (required_arguments ''save_text_to_file'')
   \<and> \<not> has_argument (PDict [(''filename'', PStr ''a.txt'')]) (PStr ''data'')
   \<and> stdout (snd (execute_tool_call (ext0 no_tools)
        (PDict [(''function'', PDict [(''name'', PStr ''save_text_to_file''),
                                      (''arguments'', PDict [(''filename'', PStr ''a.txt'')])])])
        world0))
      = ['' ['' @ middle_dot @ ''] Ejecutando tool: save_text_to_file con args=''
           @ repr0 (PDict [(''filename'', PStr ''a.txt'')])]
   \<and> fst (execute_tool_call (ext0 no_tools)
        (PDict [(''function'', PDict [(''name'', PStr ''save_text_to_file''),
                                      (''arguments'', PDict [(''filename'', PStr ''a.txt'')])])])
        world0)
      = Inr (''[ERROR ejecutando save_text_to_file] save_text_to_file() missing 1 required positional argument: ''
               @ [sq] @ ''data'' @ [sq] @ [nl] @ ''Traceback (most recent call last):'')"
proof -
  let ?x = "ext0 no_tools"
  let ?args = "PDict [(''filename'', PStr ''a.txt'')]"
  let ?f = "[(''name'', PStr ''save_text_to_file''), (''arguments'', ?args)]"
  let ?e = "PyExc TypeError
      (''save_text_to_file() missing 1 required positional argument: '' @ [sq] @ ''data'' @ [sq])"
  have r: "PStr ''data'' \<in> set (required_arguments ''save_text_to_file'')"
    by (simp add: required_arguments_def TOOL_SPECS_def tool_spec_def spec_name_def spec_required_def)
  have h: "\<not> has_argument ?args (PStr ''data'')"
    by (simp add: has_argument_def)
  have na: "name_and_arguments (PDict [(''function'', PDict ?f)]) = Inr (PStr ''save_text_to_file'', ?args)"
    by (rule name_and_arguments_wellformed [where f = ?f]) simp_all
  have reg: "map_of TOOL_FUNCS ''save_text_to_file'' = Some Fn_save_text_to_file"
    by (simp add: TOOL_FUNCS_def)
  have e: "execute_tool_call ?x (PDict [(''function'', PDict ?f)]) world0
      = (Inr (tool_error ?x ''save_text_to_file'' ?e),
         announce ?x (PStr ''save_text_to_file'') ?args world0)"
    by (rule execute_tool_call_raised [OF na reg call_tool_save_no_data]) simp
  have out: "stdout (announce ?x (PStr ''save_text_to_file'') ?args world0)
      = ['' ['' @ middle_dot @ ''] Ejecutando tool: save_text_to_file con args='' @ repr0 ?args]"
    by (simp add: announce_def print_def world0_def ext0_def)
  have tx: "tool_error ?x ''save_text_to_file'' ?e
      = ''[ERROR ejecutando save_text_to_file] save_text_to_file() missing 1 required positional argument: ''
          @ [sq] @ ''data'' @ [sq] @ [nl] @ ''Traceback (most recent call last):''"
    by (simp add: tool_error_def ext0_def)
  from r h show ?thesis
    unfolding e by (simp only: fst_conv snd_conv out tx simp_thms)
qed


lemma call_tool_search_web_no_query:
  "call_tool x Fn_search_web (PDict []) w
     = (Inl (PyExc TypeError (''search_web() missing 1 required positional argument: '' @ [sq] @ ''query'' @ [sq])), w)"
  by (simp add: call_tool_def bind_args_def)

lemma execute_tool_call_guarded:
  assumes "guarded_call call" "\<forall>e. tool_raise x call w = Some e \<longrightarrow> is_Exception e"
  shows "\<exists>out w'. execute_tool_call x call w = (Inr out, w')"
proof -
  from assms(1) obtain d where call: "call = PDict d"
    by (cases call) (auto simp: guarded_call_def)
  show ?thesis
  proof (cases "name_and_arguments call")
    case (Inl e)
    then have "exc_cls e = KeyError"
      using assms(1) call
      by (auto simp: name_and_arguments_dict guarded_call_def split: option.splits pyval.splits sum.splits)
    with Inl show ?thesis
      by (simp add: execute_tool_call_def)
  next
    case (Inr na)
    obtain name args where na: "na = (name, args)"
      by (cases na)
    with Inr assms(1) call have "hashable name"
      by (auto simp: name_and_arguments_dict guarded_call_def split: option.splits pyval.splits sum.splits)
    then obtain r where r: "registry_get name = Inr r"
      using registry_get_hashable by blast
    show ?thesis
    proof (cases r)
      case None
      with Inr na r show ?thesis
        by (simp add: execute_tool_call_def)
    next
      case (Some func)
      obtain res w2 where c: "call_tool x func args (announce x name args w) = (res, w2)"
        by (cases "call_tool x func args (announce x name args w)")
      show ?thesis
      proof (cases res)
        case (Inl e)
        with c Inr na r Some have "tool_raise x call w = Some e"
          by (simp add: tool_raise_def)
        with assms(2) have "is_Exception e"
          by blast
        with Inl c Inr na r Some show ?thesis
          by (simp add: execute_tool_call_def)
      next
        case (Inr result)
        with c \<open>name_and_arguments call = Inr na\<close> na r Some show ?thesis
          by (simp add: execute_tool_call_def)
      qed
    qed
  qed
qed

text \<open>
  C10, as amended. A request dictionary whose \<^verbatim>\<open>function\<close> value, when present, is a
  dictionary, and whose \<^verbatim>\<open>name\<close>, when present, can be hashed, makes
  \<^verbatim>\<open>execute_tool_call\<close> return a string, as long as the call of the tool for this
  request, if it comes to that and raises, raises an exception of class \<^verbatim>\<open>Exception\<close>.
  The condition on \<^verbatim>\<open>function\<close> is necessary: with any other value there, a
  \<^verbatim>\<open>TypeError\<close> leaves the function. The claim as stated fails for a name that is a
  list, which \<^verbatim>\<open>TOOL_FUNCS.get\<close> cannot hash, and for executed code that raises
  \<^verbatim>\<open>SystemExit\<close>, which no \<^verbatim>\<open>except Exception\<close> catches.
\<close>

theorem guarded_call_returns:
  "(guarded_call (PDict d) \<and> (\<forall>e. tool_raise x (PDict d) w = Some e \<longrightarrow> is_Exception e)
      \<longrightarrow> (\<exists>out w'. execute_tool_call x (PDict d) w = (Inr out, w')))
   \<and> (map_of d ''function'' = Some v \<and> (\<forall>f. v \<noteq> PDict f)
      \<longrightarrow> (\<exists>m. execute_tool_call x (PDict d) w = (Inl (PyExc TypeError m), w)))"
  using execute_tool_call_guarded execute_tool_call_not_dict by blast

theorem unhashable_name_or_exit_escapes:
  "guarded_call
     (PDict [(''function'', PDict [(''name'', PStr ''code_exec''),
        (''arguments'', PDict [(''code'', PStr ''import sys; sys.exit()'')])])])
   \<and> fst (execute_tool_call ((ext0 no_tools)\<lparr>py_exec := exec_exit\<rparr>)
        (PDict [(''function'', PDict [(''name'', PStr ''code_exec''),
           (''arguments'', PDict [(''code'', PStr ''import sys; sys.exit()'')])])]) world0)
      = Inl (PyExc SystemExit [])
   \<and> map_of [(''function'', PDict [(''name'', PList []), (''arguments'', PDict [])])] ''function''
      = Some (PDict [(''name'', PList []), (''arguments'', PDict [])])
   \<and> execute_tool_call (ext0 no_tools)
        (PDict [(''function'', PDict [(''name'', PList []), (''arguments'', PDict [])])]) world0
      = (Inl (PyExc TypeError (''unhashable type: '' @ [sq] @ ''list'' @ [sq])), world0)"
proof -
  let ?x = "(ext0 no_tools)\<lparr>py_exec := exec_exit\<rparr>"
  let ?c = "''import sys; sys.exit()''"
  let ?args = "PDict [(''code'', PStr ?c)]"
  let ?w = "announce ?x (PStr ''code_exec'') ?args world0"
  have na: "name_and_arguments (PDict [(''function'', PDict [(''name'', PStr ''code_exec''), (''arguments'', ?args)])])
      = Inr (PStr ''code_exec'', ?args)"
    by (rule name_and_arguments_wellformed [where f = "[(''name'', PStr ''code_exec''), (''arguments'', ?args)]"])
      simp_all
  have reg: "map_of TOOL_FUNCS ''code_exec'' = Some Fn_code_exec"
    by (simp add: TOOL_FUNCS_def)
  have px: "py_exec ?x = exec_exit"
    by (simp add: ext0_def)
  have "py_exec ?x (PStr (sanitize_path_literals ?c)) (exec_globals (ensure_exec_env ?w))
      = (AList.update ''sys'' (Module ''sys'') (with_builtins (exec_globals (ensure_exec_env ?w))), [],
         Some (PyExc SystemExit []))"
    unfolding px sanitize_exit by (rule exec_exit_exit)
  then have "code_exec ?x (PStr ?c) ?w
      = (Inl (PyExc SystemExit []),
         (ensure_exec_env ?w)\<lparr>exec_globals :=
            AList.update ''sys'' (Module ''sys'') (with_builtins (exec_globals (ensure_exec_env ?w)))\<rparr>)"
    by (rule code_exec_escapes) simp
  then have "call_tool ?x Fn_code_exec ?args ?w
      = (Inl (PyExc SystemExit []),
         (ensure_exec_env ?w)\<lparr>exec_globals :=
            AList.update ''sys'' (Module ''sys'') (with_builtins (exec_globals (ensure_exec_env ?w)))\<rparr>)"
    by (simp only: call_tool_code_exec)
  from execute_tool_call_escapes [OF na reg this]
  have exit: "fst (execute_tool_call ?x
        (PDict [(''function'', PDict [(''name'', PStr ''code_exec''), (''arguments'', ?args)])]) world0)
      = Inl (PyExc SystemExit [])"
    by simp
  have g: "guarded_call (PDict [(''function'', PDict [(''name'', PStr ''code_exec''), (''arguments'', ?args)])])"
    by (simp add: guarded_call_def)
  have unhashable: "execute_tool_call (ext0 no_tools)
        (PDict [(''function'', PDict [(''name'', PList []), (''arguments'', PDict [])])]) world0
      = (Inl (PyExc TypeError (''unhashable type: '' @ [sq] @ ''list'' @ [sq])), world0)"
    by (simp add: execute_tool_call_def name_and_arguments_dict)
  from g exit unhashable show ?thesis
    by simp
qed

theorem guarded_call_returns_witness:
  "guarded_call (PDict [(''function'', PDict [(''name'', PStr ''search_web''), (''arguments'', PDict [])])])
   \<and> tool_raise ((ext0 no_tools)\<lparr>py_exec := exec_exit\<rparr>)
        (PDict [(''function'', PDict [(''name'', PStr ''search_web''), (''arguments'', PDict [])])]) world0
      = Some (PyExc TypeError
          (''search_web() missing 1 required positional argument: '' @ [sq] @ ''query'' @ [sq]))
   \<and> is_Exception (PyExc TypeError
          (''search_web() missing 1 required positional argument: '' @ [sq] @ ''query'' @ [sq]))
   \<and> (\<exists>out w'. execute_tool_call ((ext0 no_tools)\<lparr>py_exec := exec_exit\<rparr>)
         (PDict [(''function'', PDict [(''name'', PStr ''search_web''), (''arguments'', PDict [])])]) world0
        = (Inr out, w'))
   \<and> map_of [(''function'', PNone)] ''function'' = Some PNone
   \<and> (\<exists>m. execute_tool_call ((ext0 no_tools)\<lparr>py_exec := exec_exit\<rparr>) (PDict [(''function'', PNone)]) world0
            = (Inl (PyExc TypeError m), world0))"
proof -
  let ?x = "(ext0 no_tools)\<lparr>py_exec := exec_exit\<rparr>"
  let ?d = "[(''function'', PDict [(''name'', PStr ''search_web''), (''arguments'', PDict [])])]"
  let ?e = "PyExc TypeError (''search_web() missing 1 required positional argument: '' @ [sq] @ ''query'' @ [sq])"
  have g: "guarded_call (PDict ?d)"
    by (simp add: guarded_call_def)
  have na: "name_and_arguments (PDict ?d) = Inr (PStr ''search_web'', PDict [])"
    by (rule name_and_arguments_wellformed [where f = "[(''name'', PStr ''search_web''), (''arguments'', PDict [])]"])
      simp_all
  have reg: "map_of TOOL_FUNCS ''search_web'' = Some Fn_search_web"
    by (simp add: TOOL_FUNCS_def)
  have t: "tool_raise ?x (PDict ?d) world0 = Some ?e"
    by (simp add: tool_raise_def na reg call_tool_search_web_no_query)
  have i: "is_Exception ?e"
    by simp
  from t i have h: "\<forall>e. tool_raise ?x (PDict ?d) world0 = Some e \<longrightarrow> is_Exception e"
    by simp
  have n: "map_of [(''function'', PNone)] ''function'' = Some PNone \<and> (\<forall>f. PNone \<noteq> PDict f)"
    by simp
  from g h guarded_call_returns [of ?d ?x world0]
  have r: "\<exists>out w'. execute_tool_call ?x (PDict ?d) world0 = (Inr out, w')"
    by blast
  from n guarded_call_returns [of "[(''function'', PNone)]" ?x world0 PNone]
  have m: "\<exists>m. execute_tool_call ?x (PDict [(''function'', PNone)]) world0 = (Inl (PyExc TypeError m), world0)"
    by blast
  from g t i r n m show ?thesis
    by (intro conjI) simp_all
qed

section \<open>Saving text\<close>

text \<open>
  C8. Two calls of \<^verbatim>\<open>save_text_to_file\<close> with the same file name, one after the other:
  each returns the confirmation text, which ends in the file name, and the file then
  holds what it held before (nothing, if it did not exist) followed by the first and
  then the second text. The file name is one that the operating system lets the
  process open for appending.
\<close>

theorem save_text_to_file_appends:
  assumes "open_error x (PStr fn) = None"
  shows "fst (save_text_to_file x (PStr d1) (PStr fn) w) = Inr (PStr (''Data successfully saved to '' @ fn))
     \<and> fst (save_text_to_file x (PStr d2) (PStr fn) (snd (save_text_to_file x (PStr d1) (PStr fn) w)))
         = Inr (PStr (''Data successfully saved to '' @ fn))
     \<and> files (snd (save_text_to_file x (PStr d2) (PStr fn) (snd (save_text_to_file x (PStr d1) (PStr fn) w)))) fn
         = Some ((case files w fn of None \<Rightarrow> [] | Some old \<Rightarrow> old) @ d1 @ d2)"
  using assms by (simp add: save_text_to_file_def)

theorem save_text_to_file_appends_witness:
  "open_error (ext0 no_tools) (PStr ''notes.txt'') = None
   \<and> fst (save_text_to_file (ext0 no_tools) (PStr ''ab'') (PStr ''notes.txt'') world0)
       = Inr (PStr ''Data successfully saved to notes.txt'')
   \<and> files (snd (save_text_to_file (ext0 no_tools) (PStr ''cd'') (PStr ''notes.txt'')
        (snd (save_text_to_file (ext0 no_tools) (PStr ''ab'') (PStr ''notes.txt'') world0)))) ''notes.txt''
       = Some ''abcd''"
proof -
  have h: "open_error (ext0 no_tools) (PStr ''notes.txt'') = None"
    by (simp add: ext0_def)
  from save_text_to_file_appends [OF h, where ?d1.0 = "''ab''" and ?d2.0 = "''cd''" and w = world0] h
  show ?thesis
    by (simp add: world0_def)
qed

section \<open>The conversation loop, step by step\<close>

lemma model_turn_final:
  assumes "chat x (messages c) = Inr response"
    "message_field response ''tool_calls'' (PList []) = Inr tool_calls" "\<not> truthy tool_calls"
    "message_field response ''content'' (PStr []) = Inr assistant_response"
  shows "model_turn x c =
     (if truthy assistant_response
      then c\<lparr>phase := AwaitingUser,
             messages := messages c @ [assistant_message assistant_response],
             wld := print (nl # py_str x assistant_response @ [nl]) ((wld c)\<lparr>requests := requests (wld c) @ [messages c]\<rparr>)\<rparr>
      else c\<lparr>phase := AwaitingUser,
             wld := print ''(sin respuesta del modelo)'' ((wld c)\<lparr>requests := requests (wld c) @ [messages c]\<rparr>)\<rparr>)"
  using assms by (simp add: model_turn_def call_agent_def)

text \<open>
  C9. When the response of the model carries no tool calls (none at all, or an empty
  list) and no text (none at all, or the empty string), the step of the loop leaves the
  history as it is, prints the no-answer line, and goes back to waiting for the user.
\<close>

theorem empty_answer_not_recorded:
  assumes "phase c = ModelTurn" "chat x (messages c) = Inr (PDict r)" "map_of r ''message'' = Some (PDict m)"
    "map_of m ''tool_calls'' = None \<or> map_of m ''tool_calls'' = Some (PList [])"
    "map_of m ''content'' = None \<or> map_of m ''content'' = Some (PStr [])"
  shows "messages (step x c) = messages c
     \<and> stdout (wld (step x c)) = stdout (wld c) @ [''(sin respuesta del modelo)'']
     \<and> phase (step x c) = AwaitingUser"
proof -
  from assms(3,4) have tc: "message_field (PDict r) ''tool_calls'' (PList []) = Inr (PList [])"
    by (auto simp: message_field_def)
  from assms(3,5) have ct: "message_field (PDict r) ''content'' (PStr []) = Inr (PStr [])"
    by (auto simp: message_field_def)
  have "model_turn x c = c\<lparr>phase := AwaitingUser,
      wld := print ''(sin respuesta del modelo)'' ((wld c)\<lparr>requests := requests (wld c) @ [messages c]\<rparr>)\<rparr>"
    using model_turn_final [OF assms(2) tc _ ct] by simp
  with assms(1) show ?thesis
    by (simp add: step_def print_def)
qed

theorem empty_answer_not_recorded_witness:
  "messages (step (ext0 no_tools) \<lparr>phase = ModelTurn, messages = [user_message ''hola''], tools_executed = False, wld = world0\<rparr>)
     = [user_message ''hola'']
   \<and> stdout (wld (step (ext0 no_tools) \<lparr>phase = ModelTurn, messages = [user_message ''hola''], tools_executed = False, wld = world0\<rparr>))
     = [''(sin respuesta del modelo)'']
   \<and> phase (step (ext0 no_tools) \<lparr>phase = ModelTurn, messages = [user_message ''hola''], tools_executed = False, wld = world0\<rparr>)
     = AwaitingUser"
  using empty_answer_not_recorded [of "\<lparr>phase = ModelTurn, messages = [user_message ''hola''], tools_executed = False, wld = world0\<rparr>"
      "ext0 no_tools" "[(''message'', PDict [(''role'', PStr ''assistant''), (''content'', PStr [])])]"
      "[(''role'', PStr ''assistant''), (''content'', PStr [])]"]
  by (simp add: ext0_def no_tools_def world0_def)

lemma handle_exception_messages [simp]: "messages (handle_exception e c) = messages c"
  by (simp add: handle_exception_def)

lemma dispatch_calls_extends:
  "\<exists>added. fst (snd (dispatch_calls x calls msgs w)) = msgs @ added"
proof (induction calls arbitrary: msgs w)
  case Nil
  then show ?case by simp
next
  case (Cons call calls)
  show ?case
  proof (cases "execute_tool_call x call w")
    case (Pair res w1)
    show ?thesis
    proof (cases res)
      case (Inl e)
      with Pair show ?thesis by simp
    next
      case (Inr out)
      from Cons.IH [of "msgs @ [tool_message out]" w1] Pair Inr show ?thesis
        by auto
    qed
  qed
qed

lemma read_query_extends: "\<exists>added. messages (read_query c) = messages c @ added"
  by (auto simp: read_query_def Let_def split: list.splits)

lemma model_turn_extends: "\<exists>added. messages (model_turn x c) = messages c @ added"
proof -
  have d: "\<exists>added. msgs = messages c @ added"
    if "dispatch_calls x calls (messages c) w1 = (r, msgs, w2)" for calls w1 r msgs w2
    using dispatch_calls_extends [of x calls "messages c" w1] that by simp
  show ?thesis
    unfolding model_turn_def
    by (auto split: prod.splits sum.splits option.splits dest: d)
qed

lemma step_extends: "\<exists>added. messages (step x c) = messages c @ added"
  using read_query_extends [of c] model_turn_extends [of x c]
  by (cases "phase c") (auto simp: step_def)

lemma run_add: "run x (n + k) c = run x k (run x n c)"
  by (simp add: run_def funpow_add add.commute)

lemma run_extends: "\<exists>added. messages (run x k c) = messages c @ added"
proof (induction k)
  case 0
  then show ?case by (simp add: run_def)
next
  case (Suc k)
  then obtain a where a: "messages (run x k c) = messages c @ a"
    by blast
  obtain b where "messages (step x (run x k c)) = messages (run x k c) @ b"
    using step_extends by blast
  with a show ?case
    by (simp add: run_def)
qed

text \<open>
  C6. Along every session the history only grows at its end: what it holds after \<open>n\<close>
  steps is still there, in the same order and at the same place, after any number of
  further steps; and it always begins with the system prompt.
\<close>

theorem history_append_only:
  "(\<exists>added. messages (run x (n + k) (start x w)) = messages (run x n (start x w)) @ added)
   \<and> (\<exists>rest. messages (run x n (start x w)) = system_message x # rest)"
proof
  show "\<exists>added. messages (run x (n + k) (start x w)) = messages (run x n (start x w)) @ added"
    unfolding run_add by (rule run_extends)
  show "\<exists>rest. messages (run x n (start x w)) = system_message x # rest"
    using run_extends [of x n "start x w"] by (auto simp: start_def)
qed

theorem history_append_only_witness:
  "messages (run (ext0 no_tools) (0 + Suc 0) (start (ext0 no_tools) (world0\<lparr>stdin := [''hola'']\<rparr>)))
     = messages (run (ext0 no_tools) 0 (start (ext0 no_tools) (world0\<lparr>stdin := [''hola'']\<rparr>)))
       @ [user_message ''hola'']
   \<and> messages (run (ext0 no_tools) 0 (start (ext0 no_tools) (world0\<lparr>stdin := [''hola'']\<rparr>)))
     = system_message (ext0 no_tools) # []"
  using history_append_only [of "ext0 no_tools" 0 "Suc 0" "world0\<lparr>stdin := [''hola'']\<rparr>"]
  by (simp add: run_def step_def start_def read_query_def print_def world0_def strip_def lower_def
      is_space_def space2_def space3_def)






lemma print_requests [simp]: "requests (print line w) = requests w"
  by (simp add: print_def)







lemma handle_exception_requests [simp]: "requests (wld (handle_exception e c)) = requests (wld c)"
  by (simp add: handle_exception_def)









section \<open>Executing code\<close>

lemma ensure_exec_env_bound:
  "map_of (exec_globals w) v = Some obj \<Longrightarrow> exec_globals (ensure_exec_env w) = exec_globals w"
  by (auto simp: ensure_exec_env_def)

lemma code_exec_globals:
  "exec_globals (snd (code_exec x code w))
     = fst (py_exec x (safe_code code) (exec_globals (ensure_exec_env w)))"
  by (simp add: code_exec_def Let_def split: prod.splits option.splits)

lemma code_exec_raised:
  assumes "py_exec x (safe_code code) (exec_globals (ensure_exec_env w)) = (g, out, Some e)" "is_Exception e"
  shows "code_exec x code w
     = (Inr (PStr (out @ ''Error: '' @ exc_msg e @ [nl] @ format_exc x e @ [nl])),
        (ensure_exec_env w)\<lparr>exec_globals := g\<rparr>)"
  using assms by (simp add: code_exec_def)

lemma after_calls_bound:
  assumes "map_of (exec_globals w) v = Some obj"
    "\<forall>later \<in> set codes. \<forall>g. map_of g v = Some obj
       \<longrightarrow> map_of (fst (py_exec x (safe_code later) g)) v = Some obj"
  shows "map_of (exec_globals (after_calls x codes w)) v = Some obj"
  using assms
proof (induction codes arbitrary: w)
  case Nil
  then show ?case by (simp add: after_calls_def)
next
  case (Cons code codes)
  have "map_of (exec_globals (snd (code_exec x code w))) v = Some obj"
    using Cons.prems by (simp add: code_exec_globals ensure_exec_env_bound)
  from Cons.IH [OF this] Cons.prems(2) show ?case
    by (simp add: after_calls_def)
qed

lemma map_of_with_builtins:
  "k \<noteq> ''__builtins__'' \<Longrightarrow> map_of (with_builtins g) k = map_of g k"
  by (simp add: with_builtins_def map_add_def split: option.splits)

lemma safe_code_plain:
  "safe_code (PStr ''x = 1'') = PStr ''x = 1''" "safe_code (PStr ''1/0'') = PStr ''1/0''"
  "safe_code (PStr ''print(x)'') = PStr ''print(x)''"
  by (simp_all add: safe_code_def is_quote_def sq_def dq_def)

lemma exec0_assign: "exec0 (PStr ''x = 1'') g = (AList.update ''x'' (Obj (PInt 1)) (with_builtins g), [], None)"
  by (simp add: exec0_def)

lemma exec0_division:
  "exec0 (PStr ''1/0'') g
     = (with_builtins g, [], Some (PyExc (OtherException ''ZeroDivisionError'') ''division by zero''))"
  by (simp add: exec0_def)

lemma exec0_print: "exec0 (PStr ''print(x)'') g = (with_builtins g, [], None)"
  by (simp add: exec0_def)

text \<open>
  C7. The namespace of \<^verbatim>\<open>code_exec\<close> persists. A variable that is bound when one call
  is over is bound, to the same object, in the namespace that every later call hands to
  the interpreter, whatever codes are executed in between, as long as none of those codes
  itself unbinds or rebinds it; the codes in between may raise. And a call whose code
  raises an exception of class \<^verbatim>\<open>Exception\<close> returns normally, with the output so far
  and the error text, and leaves the namespace as the code left it, for the next call
  to use.
\<close>

theorem exec_env_persists:
  "(map_of (exec_globals (snd (code_exec x code w))) v = Some obj
      \<and> (\<forall>later \<in> set codes. \<forall>g. map_of g v = Some obj
            \<longrightarrow> map_of (fst (py_exec x (safe_code later) g)) v = Some obj)
     \<longrightarrow> map_of (exec_globals (ensure_exec_env (after_calls x codes (snd (code_exec x code w))))) v = Some obj)
   \<and> (py_exec x (safe_code failing) (exec_globals (ensure_exec_env w')) = (g', out, Some e) \<and> is_Exception e
     \<longrightarrow> code_exec x failing w'
          = (Inr (PStr (out @ ''Error: '' @ exc_msg e @ [nl] @ format_exc x e @ [nl])),
             (ensure_exec_env w')\<lparr>exec_globals := g'\<rparr>))"
proof (intro conjI impI)
  assume h: "map_of (exec_globals (snd (code_exec x code w))) v = Some obj
      \<and> (\<forall>later \<in> set codes. \<forall>g. map_of g v = Some obj
            \<longrightarrow> map_of (fst (py_exec x (safe_code later) g)) v = Some obj)"
  then have "map_of (exec_globals (after_calls x codes (snd (code_exec x code w)))) v = Some obj"
    by (intro after_calls_bound) blast+
  then show "map_of (exec_globals (ensure_exec_env (after_calls x codes (snd (code_exec x code w))))) v = Some obj"
    by (simp add: ensure_exec_env_bound)
next
  assume "py_exec x (safe_code failing) (exec_globals (ensure_exec_env w')) = (g', out, Some e) \<and> is_Exception e"
  then show "code_exec x failing w'
          = (Inr (PStr (out @ ''Error: '' @ exc_msg e @ [nl] @ format_exc x e @ [nl])),
             (ensure_exec_env w')\<lparr>exec_globals := g'\<rparr>)"
    by (elim conjE) (rule code_exec_raised)
qed

theorem exec_env_persists_witness:
  "map_of (exec_globals (snd (code_exec (ext0 no_tools) (PStr ''x = 1'') world0))) ''x'' = Some (Obj (PInt 1))
   \<and> map_of (exec_globals (ensure_exec_env (after_calls (ext0 no_tools) [PStr ''1/0'', PStr ''print(x)'']
        (snd (code_exec (ext0 no_tools) (PStr ''x = 1'') world0))))) ''x'' = Some (Obj (PInt 1))
   \<and> fst (code_exec (ext0 no_tools) (PStr ''1/0'') (snd (code_exec (ext0 no_tools) (PStr ''x = 1'') world0)))
      = Inr (PStr (''Error: division by zero'' @ [nl] @ ''Traceback (most recent call last):'' @ [nl]))"
proof -
  let ?x = "ext0 no_tools"
  let ?w1 = "snd (code_exec ?x (PStr ''x = 1'') world0)"
  let ?e = "PyExc (OtherException ''ZeroDivisionError'') ''division by zero''"
  have px: "py_exec ?x = exec0"
    by (simp add: ext0_def)
  have d: "map_of (exec_globals ?w1) ''x'' = Some (Obj (PInt 1))"
    by (simp add: code_exec_globals px safe_code_plain exec0_assign update_conv')
  have k: "\<forall>later \<in> set [PStr ''1/0'', PStr ''print(x)'']. \<forall>g. map_of g ''x'' = Some (Obj (PInt 1))
      \<longrightarrow> map_of (fst (py_exec ?x (safe_code later) g)) ''x'' = Some (Obj (PInt 1))"
    by (simp add: px safe_code_plain exec0_division exec0_print map_of_with_builtins)
  have r: "py_exec ?x (safe_code (PStr ''1/0'')) (exec_globals (ensure_exec_env ?w1))
      = (with_builtins (exec_globals (ensure_exec_env ?w1)), [], Some ?e) \<and> is_Exception ?e"
    by (simp add: px safe_code_plain exec0_division)
  note t = exec_env_persists [where x = ?x and code = "PStr ''x = 1''" and w = world0 and v = "''x''"
      and obj = "Obj (PInt 1)" and codes = "[PStr ''1/0'', PStr ''print(x)'']" and failing = "PStr ''1/0''"
      and w' = ?w1 and g' = "with_builtins (exec_globals (ensure_exec_env ?w1))" and out = "[]" and e = ?e]
  from t d k have a: "map_of (exec_globals (ensure_exec_env (after_calls ?x [PStr ''1/0'', PStr ''print(x)''] ?w1))) ''x''
      = Some (Obj (PInt 1))"
    by blast
  from t r have "code_exec ?x (PStr ''1/0'') ?w1
      = (Inr (PStr ([] @ ''Error: '' @ exc_msg ?e @ [nl] @ format_exc ?x ?e @ [nl])),
         (ensure_exec_env ?w1)\<lparr>exec_globals := with_builtins (exec_globals (ensure_exec_env ?w1))\<rparr>)"
    by blast
  then have b: "fst (code_exec ?x (PStr ''1/0'') ?w1)
      = Inr (PStr (''Error: division by zero'' @ [nl] @ ''Traceback (most recent call last):'' @ [nl]))"
    by (simp add: ext0_def)
  from d a b show ?thesis
    by (intro conjI)
qed

end
